theory Spec2Isabelle
  imports Main "HOL-Library.Monad_Syntax"
begin

section \<open>Data model (src/state/ducks/records/types.ts)\<close>

text \<open>
  A JavaScript \<open>Date\<close> holds a time value: a whole number of milliseconds since the
  epoch, or NaN (the "Invalid Date").
\<close>

datatype jsdate = Date int | InvalidDate

text \<open>
  The time values a \<open>Date\<close> can hold reach 100,000,000 days either side of the epoch;
  \<open>timeClip\<close> is the specification's TimeClip, which turns anything beyond into NaN.
\<close>

definition validTime :: "int \<Rightarrow> bool" where
  "validTime t \<longleftrightarrow> - 8640000000000000 \<le> t \<and> t \<le> 8640000000000000"

definition timeClip :: "int \<Rightarrow> jsdate" where
  "timeClip t = (if validTime t then Date t else InvalidDate)"

text \<open>
  \<^verbatim>\<open>interface DailyRecord { starts: Date[]; stops: Date[]; memos: string[] }\<close>
\<close>

record DailyRecord =
  starts :: "jsdate list"
  stops :: "jsdate list"
  memos :: "string list"

text \<open>
  \<^verbatim>\<open>interface Records { [index: string]: DailyRecord }\<close>: an object used as a
  dictionary, kept as the list of its own properties in their enumeration order.
  \<open>map_of\<close> is the lookup
  \<^verbatim>\<open>Object.prototype.hasOwnProperty.call(records, key) ? records[key] : null\<close>.
\<close>

type_synonym Records = "(string \<times> DailyRecord) list"


section \<open>Latest-session derivation\<close>

text \<open>
  A break length is a number of minutes. JavaScript numbers that are not whole (or NaN,
  or infinite) are outside this embedding; whole ones, negative ones too, are \<open>int\<close>.
\<close>

record LatestSession =
  start :: "jsdate option"
  stop :: "jsdate option"
  memo :: string
  breakTimeLengthMin :: "int option"

definition lastOrNull :: "'a list \<Rightarrow> 'a option" where
  "lastOrNull xs = (if xs = [] then None else Some (last xs))"

text \<open>
  Modelled from the spec: \<open>getLatestOf\<close> (the spec's \<open>deriveLatest\<close>) is exported by
  src/state/ducks/records, which is not among the sources; only its callers are. The
  definition follows section 4.1 of the specification:
  \<^item> no record: \<open>{start: null, stop: null, memo: '', breakTimeLengthMin: default ?? null}\<close>;
  \<^item> \<open>start\<close> is the last element of \<open>starts\<close>, or null if empty;
  \<^item> \<open>stop\<close> is the last element of \<open>stops\<close> only if \<open>stops.length >= starts.length\<close>,
    otherwise null;
  \<^item> \<open>memo\<close> is the last element of \<open>memos\<close>, or \<open>''\<close>;
  \<^item> \<open>breakTimeLengthMin\<close> is a per-day stored override if present, else the default,
    else null. The \<open>DailyRecord\<close> declared in the sources has no field for such an
    override, so where it would be stored is the parameter \<open>override\<close>.

  Section 4.1 adds an edge case, \<open>starts\<close> empty but \<open>stops\<close> non-empty treated as
  \<open>stop = null\<close>, which contradicts the rule for \<open>stop\<close> above. Section 9 says that the
  source decides by the lengths alone and tolerates \<open>stops.length > starts.length\<close>, and
  the callers in the sources test \<open>latest.stop\<close> apart from \<open>latest.start\<close>; the
  definition therefore keeps the rule by lengths.
\<close>

definition getLatestOf ::
  "(DailyRecord \<Rightarrow> int option) \<Rightarrow> DailyRecord option \<Rightarrow> int option \<Rightarrow> LatestSession" where
  "getLatestOf override record defaultBreakMinutes =
     (case record of
        None \<Rightarrow> \<lparr>start = None, stop = None, memo = [], breakTimeLengthMin = defaultBreakMinutes\<rparr>
      | Some r \<Rightarrow>
          \<lparr>start = lastOrNull (starts r),
           stop = (if length (stops r) \<ge> length (starts r) then lastOrNull (stops r) else None),
           memo = (case lastOrNull (memos r) of None \<Rightarrow> [] | Some m \<Rightarrow> m),
           breakTimeLengthMin =
             (case override r of Some b \<Rightarrow> Some b | None \<Rightarrow> defaultBreakMinutes)\<rparr>)"

section \<open>Strings and the dayjs calls the exporters make\<close>

text \<open>
  Strings are lists of bytes (UTF-8). \<open>showNat\<close> is \<open>String(n)\<close> for a natural number,
  \<open>padStart\<close> is dayjs' \<open>Utils.s\<close> (\<open>String.prototype.padStart\<close>).
\<close>

definition dquote :: char where
  "dquote = CHR 0x22"

definition digitChar :: "nat \<Rightarrow> char" where
  "digitChar d = ''0123456789'' ! d"

fun showNat :: "nat \<Rightarrow> string" where
  "showNat n = (if n < 10 then [digitChar n] else showNat (n div 10) @ [digitChar (n mod 10)])"

declare showNat.simps [simp del]

definition padStart :: "nat \<Rightarrow> char \<Rightarrow> string \<Rightarrow> string" where
  "padStart w c s = replicate (w - length s) c @ s"

definition pad2 :: "nat \<Rightarrow> string" where
  "pad2 n = padStart 2 (CHR ''0'') (showNat n)"

text \<open>
  \<^verbatim>\<open>columns.map(column => `"${column}"`).join(',')\<close>: \<open>quote\<close> is the template
  literal, \<open>joinWith\<close> is \<open>Array.prototype.join\<close>.
\<close>

definition quote :: "string \<Rightarrow> string" where
  "quote column = dquote # column @ [dquote]"

fun joinWith :: "string \<Rightarrow> string list \<Rightarrow> string" where
  "joinWith sep [] = []"
| "joinWith sep [x] = x"
| "joinWith sep (x # y # ys) = x @ sep @ joinWith sep (y # ys)"

text \<open>
  A \<open>Dayjs\<close> object that stands for a calendar day, by its local calendar fields:
  year, month (0 is January, as dayjs keeps it) and day of the month. The exporters read
  nothing else of it.
\<close>

record Dayjs =
  dYear :: nat
  dMonth :: nat
  dDate :: nat

definition isLeapYear :: "nat \<Rightarrow> bool" where
  "isLeapYear y \<longleftrightarrow> (y mod 4 = 0 \<and> y mod 100 \<noteq> 0) \<or> y mod 400 = 0"

text \<open>\<open>month.daysInMonth()\<close>\<close>

definition daysInMonth :: "Dayjs \<Rightarrow> nat" where
  "daysInMonth d =
     (if dMonth d = 1 then (if isLeapYear (dYear d) then 29 else 28)
      else if dMonth d \<in> {3, 5, 8, 10} then 30 else 31)"

text \<open>\<open>date.format('YYYY-MM-DD')\<close>\<close>

definition formatYYYYMMDD :: "string \<Rightarrow> Dayjs \<Rightarrow> string" where
  "formatYYYYMMDD sep d =
     padStart 4 (CHR ''0'') (showNat (dYear d)) @ sep @ pad2 (dMonth d + 1) @ sep @ pad2 (dDate d)"

text \<open>
  \<^verbatim>\<open>export function makeRecordKey(date: Date) { return dayjs(date).format('YYYYMMDD') }\<close>
  The exporters call it as \<open>makeRecordKey(date.toDate())\<close> on a \<open>Dayjs\<close>; going through
  the \<open>Date\<close> and back keeps the local calendar day, so the key is read off the
  \<open>Dayjs\<close> itself.
\<close>

definition makeRecordKey :: "Dayjs \<Rightarrow> string" where
  "makeRecordKey date = formatYYYYMMDD [] date"

text \<open>
  What the exporters read of the machine they run on: the instant \<open>dayjs()\<close> returns
  (\<open>clock\<close>), and the local time zone as the specification's LocalTZA, the offset in
  milliseconds in force at a UTC instant (\<open>localTZA\<close>) and at a local time
  (\<open>localTZAofLocal\<close>).
\<close>

record Host =
  clock :: int
  localTZA :: "int \<Rightarrow> int"
  localTZAofLocal :: "int \<Rightarrow> int"

text \<open>
  \<open>dayjs(d).format('HH:mm')\<close> of a \<open>Date\<close>: the hour and minute of the local time, which
  is the time value plus the local offset in force. dayjs formats an invalid date as the
  text \<open>Invalid Date\<close>.
\<close>

fun formatHHmm :: "Host \<Rightarrow> jsdate \<Rightarrow> string" where
  "formatHHmm tz (Date t) =
     pad2 (nat (((t + localTZA tz t) div 3600000) mod 24))
     @ '':'' @ pad2 (nat (((t + localTZA tz t) div 60000) mod 60))"
| "formatHHmm tz InvalidDate = ''Invalid Date''"

text \<open>
  \<open>.hour(h)\<close> and \<open>.minute(m)\<close> of dayjs call \<open>Date.prototype.setHours\<close> and
  \<open>setMinutes\<close>: the local time keeps its day (and hour), takes the new field, fields
  out of range carry, and the result goes back to UTC through TimeClip.
\<close>

fun setHours :: "Host \<Rightarrow> jsdate \<Rightarrow> int \<Rightarrow> jsdate" where
  "setHours tz (Date t) h =
     (let local = t + localTZA tz t;
          date = (local div 86400000) * 86400000 + h * 3600000 + local mod 3600000
      in timeClip (date - localTZAofLocal tz date))"
| "setHours tz InvalidDate h = InvalidDate"

fun setMinutes :: "Host \<Rightarrow> jsdate \<Rightarrow> int \<Rightarrow> jsdate" where
  "setMinutes tz (Date t) m =
     (let local = t + localTZA tz t;
          date = (local div 3600000) * 3600000 + m * 60000 + local mod 60000
      in timeClip (date - localTZAofLocal tz date))"
| "setMinutes tz InvalidDate m = InvalidDate"

text \<open>JavaScript's \<open>a % n\<close> on whole numbers, for a positive \<open>n\<close>: the sign follows \<open>a\<close>.\<close>

definition remainder :: "int \<Rightarrow> int \<Rightarrow> int" where
  "remainder a n = (if 0 \<le> a then a mod n else - ((- a) mod n))"

text \<open>
  \<^verbatim>\<open>dayjs().hour(Math.floor(b / 60)).minute(b % 60).format('HH:mm')\<close>
\<close>

definition breakLengthText :: "Host \<Rightarrow> int \<Rightarrow> string" where
  "breakLengthText tz b =
     formatHHmm tz (setMinutes tz (setHours tz (Date (clock tz)) (b div 60)) (remainder b 60))"


section \<open>Exporters\<close>

text \<open>
  \<^verbatim>\<open>
  function getDaysInMonth(month: Dayjs): Dayjs[] {
    return Array.from(Array(month.daysInMonth()), (_, i) =>
      dayjs(month).set('date', i + 1)
    )
  }\<close>
\<close>

definition getDaysInMonth :: "Dayjs \<Rightarrow> Dayjs list" where
  "getDaysInMonth month = map (\<lambda>i. month\<lparr>dDate := i + 1\<rparr>) [0..<daysInMonth month]"

text \<open>
  src/implementations/formatter.ts. The function \<open>gl\<close> is the imported \<open>getLatestOf\<close>,
  \<open>tz\<close> the host with its clock and local time zone. \<open>csvColumns\<close> is the body of the arrow function up to
  \<open>const columns\<close>, \<open>csvRow\<close> its return value.
\<close>

definition csvColumns ::
  "Host \<Rightarrow> (DailyRecord option \<Rightarrow> int option \<Rightarrow> LatestSession) \<Rightarrow>
   Records \<Rightarrow> int option \<Rightarrow> Dayjs \<Rightarrow> string list" where
  "csvColumns tz gl recs defaultBreakTimeLength date =
     (let key = makeRecordKey date;
          record = map_of recs key;
          latest = gl record defaultBreakTimeLength;
          breakTimeLength =
            (if breakTimeLengthMin latest \<noteq> None \<and> start latest \<noteq> None \<and> stop latest \<noteq> None
             then breakLengthText tz (the (breakTimeLengthMin latest))
             else [])
      in [formatYYYYMMDD ''-'' date,
          (case start latest of Some d \<Rightarrow> formatHHmm tz d | None \<Rightarrow> []),
          (case stop latest of Some d \<Rightarrow> formatHHmm tz d | None \<Rightarrow> []),
          memo latest,
          breakTimeLength])"

definition csvRow ::
  "Host \<Rightarrow> (DailyRecord option \<Rightarrow> int option \<Rightarrow> LatestSession) \<Rightarrow>
   Records \<Rightarrow> int option \<Rightarrow> Dayjs \<Rightarrow> string" where
  "csvRow tz gl recs defaultBreakTimeLength date =
     joinWith '','' (map quote (csvColumns tz gl recs defaultBreakTimeLength date))"

definition formatSpecifiedMonthRecordsAsCsvForMail ::
  "Host \<Rightarrow> (DailyRecord option \<Rightarrow> int option \<Rightarrow> LatestSession) \<Rightarrow>
   Dayjs \<Rightarrow> Records \<Rightarrow> int option \<Rightarrow> string list" where
  "formatSpecifiedMonthRecordsAsCsvForMail tz gl firstDayOfMonth recs defaultBreakTimeLength =
     map (csvRow tz gl recs defaultBreakTimeLength) (getDaysInMonth firstDayOfMonth)"

text \<open>
  \<open>createMailToUri\<close> of the List component. It calls \<open>getLatestOf(record)\<close> with one
  argument, so the default break length is \<open>undefined\<close>.
\<close>

definition mailColumns ::
  "Host \<Rightarrow> (DailyRecord option \<Rightarrow> int option \<Rightarrow> LatestSession) \<Rightarrow>
   Records \<Rightarrow> Dayjs \<Rightarrow> string list" where
  "mailColumns tz gl recs date =
     (let key = makeRecordKey date;
          record = map_of recs key;
          latest = gl record None
      in [formatYYYYMMDD ''-'' date,
          (case start latest of Some d \<Rightarrow> formatHHmm tz d | None \<Rightarrow> []),
          (case stop latest of Some d \<Rightarrow> formatHHmm tz d | None \<Rightarrow> []),
          memo latest])"

definition mailRow ::
  "Host \<Rightarrow> (DailyRecord option \<Rightarrow> int option \<Rightarrow> LatestSession) \<Rightarrow>
   Records \<Rightarrow> Dayjs \<Rightarrow> string" where
  "mailRow tz gl recs date = joinWith '','' (map quote (mailColumns tz gl recs date))"

definition bodyLines ::
  "Host \<Rightarrow> (DailyRecord option \<Rightarrow> int option \<Rightarrow> LatestSession) \<Rightarrow>
   Dayjs \<Rightarrow> Records \<Rightarrow> string list" where
  "bodyLines tz gl firstDayOfMonth recs = map (mailRow tz gl recs) (getDaysInMonth firstDayOfMonth)"

text \<open>
  \<open>encodeURIComponent\<close> on a string of UTF-8 bytes: the unreserved marks, letters and
  digits stay, every other byte becomes \<open>%XX\<close> in upper-case hexadecimal.
\<close>

definition uriUnreserved :: "char \<Rightarrow> bool" where
  "uriUnreserved c \<longleftrightarrow>
     c \<in> set (''ABCDEFGHIJKLMNOPQRSTUVWXYZabcdefghijklmnopqrstuvwxyz0123456789-_.!~*()'' @ [CHR 0x27])"

definition hexChar :: "nat \<Rightarrow> char" where
  "hexChar d = ''0123456789ABCDEF'' ! d"

definition percentEncode :: "char \<Rightarrow> string" where
  "percentEncode c =
     (if uriUnreserved c then [c]
      else [CHR ''%'', hexChar (of_char c div 16), hexChar (of_char c mod 16)])"

definition encodeURIComponent :: "string \<Rightarrow> string" where
  "encodeURIComponent s = concat (map percentEncode s)"

text \<open>\<open>firstDayOfMonth.endOf('month')\<close>, as far as a date-only format reads it.\<close>

definition endOfMonth :: "Dayjs \<Rightarrow> Dayjs" where
  "endOfMonth d = d\<lparr>dDate := daysInMonth d\<rparr>"

text \<open>
  The subject uses dayjs' localized format \<open>ll\<close>, which depends on the locale in force;
  it is the parameter \<open>ll\<close>.
\<close>

definition createMailToUri ::
  "Host \<Rightarrow> (DailyRecord option \<Rightarrow> int option \<Rightarrow> LatestSession) \<Rightarrow> (Dayjs \<Rightarrow> string) \<Rightarrow>
   Dayjs \<Rightarrow> Records \<Rightarrow> string \<Rightarrow> string" where
  "createMailToUri tz gl ll firstDayOfMonth recs mailAddress =
     (let hfieldsMap =
            [(''subject'', ll firstDayOfMonth @ '' - '' @ ll (endOfMonth firstDayOfMonth)),
             (''body'', joinWith [CHR 0x0D, CHR 0x0A] (bodyLines tz gl firstDayOfMonth recs))];
          hfields = map (\<lambda>(key, v). key @ ''='' @ encodeURIComponent v) hfieldsMap
      in ''mailto:'' @ encodeURIComponent mailAddress @ ''?'' @ joinWith ''&'' hfields)"

section \<open>Shapes of the exported fields\<close>



section \<open>Quoted CSV records (RFC 4180)\<close>

text \<open>
  The yardstick for a well-formed quoted record: every field stands between double
  quotes, a double quote inside a field is written twice, and commas and line breaks may
  stand inside a field as they are. \<open>csvEncode\<close> writes a record that way.
\<close>

definition csvEscape :: "string \<Rightarrow> string" where
  "csvEscape s = concat (map (\<lambda>c. if c = dquote then [dquote, dquote] else [c]) s)"

definition csvEncode :: "string list \<Rightarrow> string" where
  "csvEncode cols = joinWith '','' (map (\<lambda>c. quote (csvEscape c)) cols)"

text \<open>
  \<open>csvRecord\<close> reads such a record back. \<open>csvField\<close> reads one field after its opening
  quote and returns its content and what follows the closing quote.
\<close>

fun csvField :: "string \<Rightarrow> (string \<times> string) option" where
  "csvField [] = None"
| "csvField [c] = (if c = dquote then Some ([], []) else None)"
| "csvField (c # d # cs) =
     (if c \<noteq> dquote then map_option (\<lambda>(f, r). (c # f, r)) (csvField (d # cs))
      else if d = dquote then map_option (\<lambda>(f, r). (dquote # f, r)) (csvField cs)
      else Some ([], d # cs))"

lemma csvField_shorter: "csvField s = Some (f, r) \<Longrightarrow> length r < length s"
  by (induction s arbitrary: f r rule: csvField.induct) (auto split: if_splits)

function csvRecord :: "string \<Rightarrow> string list option" where
  "csvRecord [] = None"
| "csvRecord (c # cs) =
     (if c \<noteq> dquote then None
      else case csvField cs of
             None \<Rightarrow> None
           | Some (f, rest) \<Rightarrow>
               (case rest of
                  [] \<Rightarrow> Some [f]
                | d # rest' \<Rightarrow>
                    if d = CHR '','' then map_option ((#) f) (csvRecord rest') else None))"
  by pat_completeness auto
termination
proof (relation "measure length")
  show "wf (measure length)" by simp
next
  fix c cs x f rest d rest'
  assume "csvField cs = Some x" "(f, rest) = x" "rest = d # rest'"
  then have "length (d # rest') < length cs"
    using csvField_shorter [of cs f rest] by simp
  then show "(rest', c # cs) \<in> measure length" by simp
qed

section \<open>Reading percent-encoded text back\<close>

text \<open>
  dayjs' \<open>ll\<close> in the English locale, \<open>MMM D, YYYY\<close>, as a sample for the parameter \<open>ll\<close>.
\<close>

definition llEnglish :: "Dayjs \<Rightarrow> string" where
  "llEnglish d =
     [''Jan'', ''Feb'', ''Mar'', ''Apr'', ''May'', ''Jun'',
      ''Jul'', ''Aug'', ''Sep'', ''Oct'', ''Nov'', ''Dec''] ! dMonth d
     @ '' '' @ showNat (dDate d) @ '', '' @ padStart 4 (CHR ''0'') (showNat (dYear d))"

text \<open>
  \<open>percentDecode\<close> turns every \<open>%XX\<close> back into its byte and fails on a malformed escape.
\<close>

fun indexOf :: "'a \<Rightarrow> 'a list \<Rightarrow> nat option" where
  "indexOf x [] = None"
| "indexOf x (y # ys) = (if x = y then Some 0 else map_option Suc (indexOf x ys))"

definition hexVal :: "char \<Rightarrow> nat option" where
  "hexVal c = indexOf c ''0123456789ABCDEF''"

fun percentDecode :: "string \<Rightarrow> string option" where
  "percentDecode [] = Some []"
| "percentDecode (c # cs) =
     (if c = CHR ''%'' then
        (case cs of
           h # l # rest \<Rightarrow>
             (case (hexVal h, hexVal l) of
                (Some a, Some b) \<Rightarrow> map_option ((#) (char_of (16 * a + b))) (percentDecode rest)
              | _ \<Rightarrow> None)
         | _ \<Rightarrow> None)
      else map_option ((#) c) (percentDecode cs))"

section \<open>Dates as text\<close>



definition leapYear :: "int \<Rightarrow> bool" where
  "leapYear y \<longleftrightarrow> (y mod 4 = 0 \<and> y mod 100 \<noteq> 0) \<or> y mod 400 = 0"


text \<open>The day number of 1 January of year \<open>y\<close>; day 0 is 1 January 1970.\<close>

definition dayFromYear :: "int \<Rightarrow> int" where
  "dayFromYear y =
     365 * (y - 1970) + (y - 1969) div 4 - (y - 1901) div 100 + (y - 1601) div 400"





text \<open>
  The days of the year before month \<open>m\<close> (1 is January; 13 stands for the end of the
  year), the month of a day of the year, and the length of a month.
\<close>

definition daysBeforeMonth :: "bool \<Rightarrow> nat \<Rightarrow> int" where
  "daysBeforeMonth leap m =
     [0, 31, 59, 90, 120, 151, 181, 212, 243, 273, 304, 334, 365] ! (m - 1)
     + (if leap \<and> 2 < m then 1 else 0)"


definition daysInMonthOf :: "bool \<Rightarrow> nat \<Rightarrow> int" where
  "daysInMonthOf leap m = daysBeforeMonth leap (m + 1) - daysBeforeMonth leap m"



text \<open>
  Reading that format back, as \<open>Date.parse\<close> does for it: \<open>takeNum w\<close> reads a number of
  exactly \<open>w\<close> digits, \<open>expect\<close> one given character; \<open>makeDate\<close> is the time value of the
  fields, if they name a day and a time of day and the time value is one a \<open>Date\<close> can
  hold. \<open>parseISO\<close> is \<open>None\<close> for every string that is not of this one format.
\<close>

definition digitVal :: "char \<Rightarrow> nat option" where
  "digitVal c = indexOf c ''0123456789''"

fun readNatFrom :: "nat \<Rightarrow> string \<Rightarrow> nat option" where
  "readNatFrom a [] = Some a"
| "readNatFrom a (c # cs) =
     (case digitVal c of None \<Rightarrow> None | Some d \<Rightarrow> readNatFrom (10 * a + d) cs)"

definition takeNum :: "nat \<Rightarrow> string \<Rightarrow> (nat \<times> string) option" where
  "takeNum w s =
     (if w = 0 \<or> length s < w then None
      else map_option (\<lambda>n. (n, drop w s)) (readNatFrom 0 (take w s)))"

definition expect :: "char \<Rightarrow> string \<Rightarrow> string option" where
  "expect c s = (case s of [] \<Rightarrow> None | x # xs \<Rightarrow> if x = c then Some xs else None)"

definition readYear :: "string \<Rightarrow> (int \<times> string) option" where
  "readYear s =
     (case s of
        [] \<Rightarrow> None
      | c # cs \<Rightarrow>
          if c = CHR ''+'' then map_option (\<lambda>(n, r). (int n, r)) (takeNum 6 cs)
          else if c = CHR ''-'' then
            (case takeNum 6 cs of
               None \<Rightarrow> None
             | Some (n, r) \<Rightarrow> if n = 0 then None else Some (- int n, r))
          else map_option (\<lambda>(n, r). (int n, r)) (takeNum 4 s))"

definition makeDate :: "int \<Rightarrow> nat \<Rightarrow> nat \<Rightarrow> nat \<Rightarrow> nat \<Rightarrow> nat \<Rightarrow> nat \<Rightarrow> int option" where
  "makeDate y m d h mi sec ms =
     (if m < 1 \<or> 12 < m \<or> d < 1 \<or> daysInMonthOf (leapYear y) m < int d
         \<or> 23 < h \<or> 59 < mi \<or> 59 < sec
      then None
      else
        let t = (dayFromYear y + daysBeforeMonth (leapYear y) m + int d - 1) * 86400000
                + int h * 3600000 + int mi * 60000 + int sec * 1000 + int ms
        in if validTime t then Some t else None)"

definition parseISO :: "string \<Rightarrow> int option" where
  "parseISO s = do {
     (y, r1) \<leftarrow> readYear s;
     r2 \<leftarrow> expect (CHR ''-'') r1;
     (m, r3) \<leftarrow> takeNum 2 r2;
     r4 \<leftarrow> expect (CHR ''-'') r3;
     (d, r5) \<leftarrow> takeNum 2 r4;
     r6 \<leftarrow> expect (CHR ''T'') r5;
     (h, r7) \<leftarrow> takeNum 2 r6;
     r8 \<leftarrow> expect (CHR '':'') r7;
     (mi, r9) \<leftarrow> takeNum 2 r8;
     r10 \<leftarrow> expect (CHR '':'') r9;
     (sec, r11) \<leftarrow> takeNum 2 r10;
     r12 \<leftarrow> expect (CHR ''.'') r11;
     (ms, r13) \<leftarrow> takeNum 3 r12;
     r14 \<leftarrow> expect (CHR ''Z'') r13;
     if r14 \<noteq> [] then None else makeDate y m d h mi sec ms
   }"

section \<open>Persistence transform (src/state/store.ts)\<close>

text \<open>
  A JSON text is kept as the value it denotes, \<open>json\<close>: the grammar of the text, which is
  the engine's, is not part of the embedding. A number stands by the text \<open>String(n)\<close>
  of the finite number it is. \<open>jsvalue\<close> are the JavaScript values that take part: what
  \<open>JSON.parse\<close> builds, and \<open>Date\<close> objects. An object is the list of its properties in
  their order.
\<close>

datatype json =
  JNull | JBool bool | JNumber string | JString string
  | JArray "json list" | JObject "(string \<times> json) list"

datatype jsvalue =
  VNull | VBool bool | VNumber string | VString string | VDate jsdate
  | VArray "jsvalue list" | VObject "(string \<times> jsvalue) list"

text \<open>What \<open>JSON.parse\<close> and the reviver throw.\<close>

datatype error = TypeError | SyntaxError



text \<open>
  \<open>JSON.parse(text, reviver)\<close>: the value is built bottom-up, and the reviver is called
  on every property after its own elements or properties, with the name of the property
  (the index, as a string, for an element of an array; the empty string for the whole
  value); what it returns takes the place of the value, and what it throws ends the call.
\<close>

fun internalize :: "(string \<Rightarrow> jsvalue \<Rightarrow> error + jsvalue) \<Rightarrow> string \<Rightarrow> json \<Rightarrow> error + jsvalue"
  and internalizeElements ::
    "(string \<Rightarrow> jsvalue \<Rightarrow> error + jsvalue) \<Rightarrow> nat \<Rightarrow> json list \<Rightarrow> error + jsvalue list"
  and internalizeProperties ::
    "(string \<Rightarrow> jsvalue \<Rightarrow> error + jsvalue) \<Rightarrow> (string \<times> json) list
       \<Rightarrow> error + (string \<times> jsvalue) list"
where
  "internalize reviver key JNull = reviver key VNull"
| "internalize reviver key (JBool b) = reviver key (VBool b)"
| "internalize reviver key (JNumber n) = reviver key (VNumber n)"
| "internalize reviver key (JString s) = reviver key (VString s)"
| "internalize reviver key (JArray xs) =
     (case internalizeElements reviver 0 xs of
        Inl e \<Rightarrow> Inl e
      | Inr vs \<Rightarrow> reviver key (VArray vs))"
| "internalize reviver key (JObject ps) =
     (case internalizeProperties reviver ps of
        Inl e \<Rightarrow> Inl e
      | Inr qs \<Rightarrow> reviver key (VObject qs))"
| "internalizeElements reviver i [] = Inr []"
| "internalizeElements reviver i (x # xs) =
     (case internalize reviver (showNat i) x of
        Inl e \<Rightarrow> Inl e
      | Inr v \<Rightarrow>
          (case internalizeElements reviver (i + 1) xs of
             Inl e \<Rightarrow> Inl e
           | Inr vs \<Rightarrow> Inr (v # vs)))"
| "internalizeProperties reviver [] = Inr []"
| "internalizeProperties reviver (p # ps) =
     (case internalize reviver (fst p) (snd p) of
        Inl e \<Rightarrow> Inl e
      | Inr v \<Rightarrow>
          (case internalizeProperties reviver ps of
             Inl e \<Rightarrow> Inl e
           | Inr qs \<Rightarrow> Inr ((fst p, v) # qs)))"

definition JSON_parse :: "json \<Rightarrow> (string \<Rightarrow> jsvalue \<Rightarrow> error + jsvalue) \<Rightarrow> error + jsvalue" where
  "JSON_parse text reviver = internalize reviver [] text"

text \<open>
  \<open>dayjs(v).toDate()\<close>: null is the Invalid Date, a \<open>Date\<close> is itself, and a string in
  the format of \<open>toISOString\<close> is the \<open>Date\<close> of its time value. What dayjs and
  \<open>Date.parse\<close> make of any other value depends on the engine and on the local time
  zone; it is the parameter \<open>other\<close>.
\<close>

definition dayjs_toDate :: "(jsvalue \<Rightarrow> jsdate) \<Rightarrow> jsvalue \<Rightarrow> jsdate" where
  "dayjs_toDate other v =
     (case v of
        VNull \<Rightarrow> InvalidDate
      | VDate d \<Rightarrow> d
      | VString s \<Rightarrow> (case parseISO s of Some t \<Rightarrow> Date t | None \<Rightarrow> other v)
      | _ \<Rightarrow> other v)"

text \<open>
  \<^verbatim>\<open>
  (key, value) =>
    key === 'starts' || key === 'stops'
      ? (value as string[]).map(v => dayjs(v).toDate())
      : value\<close>
  Only an array has \<open>.map\<close>; on any other value the call throws a TypeError.
\<close>

definition reviver :: "(jsvalue \<Rightarrow> jsdate) \<Rightarrow> string \<Rightarrow> jsvalue \<Rightarrow> error + jsvalue" where
  "reviver other key v =
     (if key = ''starts'' \<or> key = ''stops''
      then (case v of
              VArray vs \<Rightarrow> Inr (VArray (map (\<lambda>v. VDate (dayjs_toDate other v)) vs))
            | _ \<Rightarrow> Inl TypeError)
      else Inr v)"

text \<open>
  What is kept in storage for a key of the state: a text, by the JSON value it denotes
  (\<open>Text\<close>), a text that is not JSON (\<open>Malformed\<close>), or a value that is not a text
  (\<open>State\<close>).
\<close>

datatype persisted = Text json | Malformed | State jsvalue


text \<open>
  \<^verbatim>\<open>
  (outboundState, key) => {
    if (key !== 'records') {
      return outboundState
    }
    return JSON.parse(outboundState as string, reviver)
  }\<close>
  \<open>JSON.parse\<close> throws a SyntaxError on a text that is not JSON. The source takes the
  stored value of \<open>records\<close> for a text (\<open>outboundState as string\<close>); what \<open>JSON.parse\<close>
  makes of another value, by turning it into a text first, is not part of the embedding:
  the result is \<open>None\<close>.
\<close>

definition transformOut ::
  "(jsvalue \<Rightarrow> jsdate) \<Rightarrow> persisted \<Rightarrow> string \<Rightarrow> (error + persisted) option" where
  "transformOut other outboundState key =
     (if key \<noteq> ''records'' then Some (Inr outboundState)
      else case outboundState of
             Text text \<Rightarrow> Some (map_sum id State (JSON_parse text (reviver other)))
           | Malformed \<Rightarrow> Some (Inl SyntaxError)
           | State v \<Rightarrow> None)"





definition deserialize :: "(jsvalue \<Rightarrow> jsdate) \<Rightarrow> persisted \<Rightarrow> (error + persisted) option" where
  "deserialize other p = transformOut other p ''records''"

section \<open>Stored records\<close>

text \<open>
  The blob of a records slice: for every key the elements of \<open>starts\<close>, the elements of
  \<open>stops\<close> and the strings of \<open>memos\<close>. \<open>hydrated\<close> is the value in which
  \<open>dayjs(v).toDate()\<close> stands in the place of every element \<open>v\<close> of \<open>starts\<close> and
  \<open>stops\<close>, for elements that are not arrays or objects (\<open>atomic\<close>). \<open>noFieldKeys\<close> says
  that no key is \<open>starts\<close> or \<open>stops\<close>, and \<open>datesOf\<close> lists the dates in a value.
\<close>

fun isAtom :: "json \<Rightarrow> bool" where
  "isAtom (JArray xs) = False"
| "isAtom (JObject ps) = False"
| "isAtom j = True"

fun atomValue :: "json \<Rightarrow> jsvalue" where
  "atomValue JNull = VNull"
| "atomValue (JBool b) = VBool b"
| "atomValue (JNumber n) = VNumber n"
| "atomValue (JString s) = VString s"
| "atomValue j = VNull"

type_synonym recordText = "json list \<times> json list \<times> string list"

definition dailyRecordText :: "recordText \<Rightarrow> json" where
  "dailyRecordText b =
     (case b of (ss, ts, ms) \<Rightarrow>
        JObject [(''starts'', JArray ss), (''stops'', JArray ts), (''memos'', JArray (map JString ms))])"

definition recordsText :: "(string \<times> recordText) list \<Rightarrow> json" where
  "recordsText bs = JObject [(''records'', JObject (map (map_prod id dailyRecordText) bs))]"

definition hydratedRecord :: "(jsvalue \<Rightarrow> jsdate) \<Rightarrow> recordText \<Rightarrow> jsvalue" where
  "hydratedRecord other b =
     (case b of (ss, ts, ms) \<Rightarrow>
        VObject [(''starts'', VArray (map (\<lambda>x. VDate (dayjs_toDate other (atomValue x))) ss)),
                 (''stops'', VArray (map (\<lambda>x. VDate (dayjs_toDate other (atomValue x))) ts)),
                 (''memos'', VArray (map VString ms))])"

definition hydrated :: "(jsvalue \<Rightarrow> jsdate) \<Rightarrow> (string \<times> recordText) list \<Rightarrow> jsvalue" where
  "hydrated other bs = VObject [(''records'', VObject (map (map_prod id (hydratedRecord other)) bs))]"

definition noFieldKeys :: "(string \<times> 'a) list \<Rightarrow> bool" where
  "noFieldKeys bs = list_all (\<lambda>p. fst p \<noteq> ''starts'' \<and> fst p \<noteq> ''stops'') bs"

definition atomic :: "(string \<times> recordText) list \<Rightarrow> bool" where
  "atomic bs = list_all (\<lambda>p. case snd p of (ss, ts, ms) \<Rightarrow> list_all isAtom ss \<and> list_all isAtom ts) bs"

fun datesOf :: "jsvalue \<Rightarrow> jsdate list" where
  "datesOf (VDate d) = [d]"
| "datesOf (VArray vs) = concat (map datesOf vs)"
| "datesOf (VObject ps) = concat (map (\<lambda>p. datesOf (snd p)) ps)"
| "datesOf v = []"




section \<open>Sample data\<close>

text \<open>
  A host in UTC whose clock reads 3 February 2024, 22:40; records without a per-day break
  override; February 2024; and five records: 3 February 09:00 to 18:00 with a memo
  containing a comma, 4 February with the session still open, 5 February with a memo
  containing a double quote, 7 February with a memo containing a line feed, 8 February
  with a start that is an invalid date.
\<close>

abbreviation utc :: Host where
  "utc \<equiv> \<lparr>clock = 1707000000000, localTZA = \<lambda>t. 0, localTZAofLocal = \<lambda>t. 0\<rparr>"


abbreviation noOverride :: "DailyRecord \<Rightarrow> int option" where
  "noOverride \<equiv> \<lambda>r. None"

abbreviation feb2024 :: "nat \<Rightarrow> Dayjs" where
  "feb2024 d \<equiv> \<lparr>dYear = 2024, dMonth = 1, dDate = d\<rparr>"

abbreviation sampleRecords :: Records where
  "sampleRecords \<equiv>
     [(''20240203'', \<lparr>starts = [Date 1706950800000], stops = [Date 1706983200000], memos = [''a,b'']\<rparr>),
      (''20240204'', \<lparr>starts = [Date 1707037200000], stops = [], memos = []\<rparr>),
      (''20240205'', \<lparr>starts = [Date 1707123600000], stops = [Date 1707156000000],
                      memos = [CHR ''a'' # dquote # ''b'']\<rparr>),
      (''20240207'', \<lparr>starts = [Date 1707296400000], stops = [Date 1707328800000],
                      memos = [[CHR ''a'', CHR 0x0A, CHR ''b'']]\<rparr>),
      (''20240208'', \<lparr>starts = [InvalidDate], stops = [], memos = []\<rparr>)]"

text \<open>
  For the persistence transform: an engine and a time zone in which no value but a
  string in the format of \<open>toISOString\<close> is a date (the samples hold one other string,
  \<open>not a date\<close>), and two records, 3 February 2024 from 09:00 to 18:00 UTC and
  8 February with an Invalid Date as start.
\<close>

abbreviation notADate :: "jsvalue \<Rightarrow> jsdate" where
  "notADate \<equiv> \<lambda>v. InvalidDate"


section \<open>Properties of the latest-session derivation\<close>



section \<open>Formatting lemmas\<close>














lemma joinWith5:
  "joinWith sep [a, b, c, d, e] = a @ sep @ b @ sep @ c @ sep @ d @ sep @ e"
  by simp

text \<open>The definitions a concrete day is evaluated with.\<close>

lemmas day_defs =
  daysInMonth_def isLeapYear_def csvRow_def csvColumns_def mailRow_def mailColumns_def
  getLatestOf_def lastOrNull_def makeRecordKey_def formatYYYYMMDD_def
  pad2_def padStart_def showNat.simps digitChar_def quote_def Let_def
  breakLengthText_def remainder_def timeClip_def validTime_def

section \<open>Properties of the exporters\<close>










lemma getLatestOf_default_free:
  "start (getLatestOf override record dflt) = start (getLatestOf override record None)"
  "stop (getLatestOf override record dflt) = stop (getLatestOf override record None)"
  "memo (getLatestOf override record dflt) = memo (getLatestOf override record None)"
  by (simp_all add: getLatestOf_def split: option.split)

text \<open>
  Claim C6: for every day, the four columns of the mailto row are the first four columns
  of the CSV row (date, start, stop, memo), both taken from the same latest-session
  derivation; the CSV row is the mailto row with the quoted break length appended, and
  the two exporters produce the same number of rows for a month. The mailto exporter
  calls \<open>getLatestOf\<close> without a default break length, which does not change start,
  stop or memo.
\<close>

theorem C6_mail_row_prefix:
  "mailColumns tz (getLatestOf override) recs date
     = take 4 (csvColumns tz (getLatestOf override) recs dflt date)
   \<and> csvRow tz (getLatestOf override) recs dflt date
     = mailRow tz (getLatestOf override) recs date
       @ '','' @ quote (csvColumns tz (getLatestOf override) recs dflt date ! 4)
   \<and> bodyLines tz (getLatestOf override) first recs
     = map (\<lambda>date. joinWith '','' (map quote (take 4 (csvColumns tz (getLatestOf override) recs dflt date))))
         (getDaysInMonth first)
   \<and> length (bodyLines tz (getLatestOf override) first recs)
     = length (formatSpecifiedMonthRecordsAsCsvForMail tz (getLatestOf override) first recs dflt)"
proof -
  have cols: "mailColumns tz (getLatestOf override) recs date
     = take 4 (csvColumns tz (getLatestOf override) recs dflt date)" for date
    using getLatestOf_default_free [of override "map_of recs (makeRecordKey date)" dflt]
    by (simp add: mailColumns_def csvColumns_def Let_def)
  have row: "csvRow tz (getLatestOf override) recs dflt date
     = mailRow tz (getLatestOf override) recs date
       @ '','' @ quote (csvColumns tz (getLatestOf override) recs dflt date ! 4)" for date
    using getLatestOf_default_free [of override "map_of recs (makeRecordKey date)" dflt]
    by (simp add: mailRow_def csvRow_def mailColumns_def csvColumns_def Let_def)
  have body: "bodyLines tz (getLatestOf override) first recs
     = map (\<lambda>date. joinWith '','' (map quote (take 4 (csvColumns tz (getLatestOf override) recs dflt date))))
         (getDaysInMonth first)"
    unfolding bodyLines_def
    by (rule map_cong) (simp_all add: mailRow_def cols)
  have len: "length (bodyLines tz (getLatestOf override) first recs)
     = length (formatSpecifiedMonthRecordsAsCsvForMail tz (getLatestOf override) first recs dflt)"
    by (simp add: bodyLines_def formatSpecifiedMonthRecordsAsCsvForMail_def)
  from cols row body len show ?thesis by (intro conjI)
qed

text \<open>
  Claim C6 on 3 February 2024 of the sample records.
\<close>

theorem C6_witness:
  "csvRow utc (getLatestOf noOverride) sampleRecords (Some 75) (feb2024 3)
     = joinWith '','' (map quote [''2024-02-03'', ''09:00'', ''18:00'', ''a,b'']) @ '','' @ quote ''01:15''
   \<and> mailRow utc (getLatestOf noOverride) sampleRecords (feb2024 3)
     = joinWith '','' (map quote [''2024-02-03'', ''09:00'', ''18:00'', ''a,b''])"
proof -
  note t = C6_mail_row_prefix [where tz = utc and override = noOverride
      and recs = sampleRecords and dflt = "Some 75" and date = "feb2024 3" and first = "feb2024 1"]
  have m: "mailRow utc (getLatestOf noOverride) sampleRecords (feb2024 3)
     = joinWith '','' (map quote [''2024-02-03'', ''09:00'', ''18:00'', ''a,b''])"
    by (simp add: day_defs)
  have b: "csvColumns utc (getLatestOf noOverride) sampleRecords (Some 75) (feb2024 3) ! 4 = ''01:15''"
    by (simp add: day_defs)
  from t [THEN conjunct2, THEN conjunct1] m b show ?thesis
    by (simp only:)
qed




section \<open>Reading the exported rows back\<close>

lemma csvEscape_Nil [simp]: "csvEscape [] = []"
  by (simp add: csvEscape_def)

lemma csvEscape_Cons:
  "csvEscape (c # s) = (if c = dquote then [dquote, dquote] else [c]) @ csvEscape s"
  by (simp add: csvEscape_def)

lemma csvEscape_plain: "dquote \<notin> set s \<Longrightarrow> csvEscape s = s"
  by (induction s) (auto simp add: csvEscape_Cons)

lemma length_csvEscape: "length s \<le> length (csvEscape s)"
  by (induction s) (auto simp add: csvEscape_Cons)

lemma length_csvEscape_quote: "dquote \<in> set s \<Longrightarrow> length s < length (csvEscape s)"
proof (induction s)
  case Nil
  then show ?case by simp
next
  case (Cons c s)
  show ?case
  proof (cases "c = dquote")
    case True
    with length_csvEscape [of s] show ?thesis by (simp add: csvEscape_Cons)
  next
    case False
    with Cons show ?thesis by (simp add: csvEscape_Cons)
  qed
qed

text \<open>What \<open>csvField\<close> accepts is an escaped field, its closing quote, and a rest that does
  not start with a quote.\<close>

lemma csvField_sound:
  "csvField s = Some (f, r) \<Longrightarrow> s = csvEscape f @ dquote # r \<and> (r = [] \<or> hd r \<noteq> dquote)"
  by (induction s arbitrary: f r rule: csvField.induct)
     (auto simp add: csvEscape_Cons split: if_splits)

lemma csvField_complete:
  "r = [] \<or> hd r \<noteq> dquote \<Longrightarrow> csvField (csvEscape f @ dquote # r) = Some (f, r)"
proof (induction f)
  case Nil
  then show ?case by (cases r) auto
next
  case (Cons c f)
  then have ih: "csvField (csvEscape f @ dquote # r) = Some (f, r)" by simp
  obtain x xs where x: "csvEscape f @ dquote # r = x # xs"
    by (cases "csvEscape f @ dquote # r") auto
  show ?case
  proof (cases "c = dquote")
    case True
    with ih show ?thesis by (simp add: csvEscape_Cons)
  next
    case False
    with ih x show ?thesis by (simp add: csvEscape_Cons)
  qed
qed

lemma csvEncode_Cons:
  "csvEncode (c # cols) =
     dquote # csvEscape c @ dquote # (if cols = [] then [] else CHR '','' # csvEncode cols)"
  by (cases cols) (simp_all add: csvEncode_def quote_def)

lemma csvRecord_sound: "csvRecord s = Some cols \<Longrightarrow> s = csvEncode cols"
proof (induction s arbitrary: cols rule: csvRecord.induct)
  case 1
  then show ?case by simp
next
  case (2 c cs)
  from "2.prems" have c: "c = dquote" by (auto split: if_splits)
  from "2.prems" c obtain f rest where fr: "csvField cs = Some (f, rest)"
    by (auto split: option.splits)
  from csvField_sound [OF fr] have cs: "cs = csvEscape f @ dquote # rest" by simp
  show ?case
  proof (cases rest)
    case Nil
    with "2.prems" c fr have "cols = [f]" by simp
    with c cs Nil show ?thesis by (simp add: csvEncode_Cons)
  next
    case (Cons d rest')
    with "2.prems" c fr have d: "d = CHR '',''" by (auto split: if_splits)
    with "2.prems" c fr Cons obtain cols' where
      cols': "csvRecord rest' = Some cols'" "cols = f # cols'"
      by auto
    from "2.IH" [OF _ fr refl Cons d cols'(1)] c have r: "rest' = csvEncode cols'" by simp
    have "cols' \<noteq> []" using cols'(1) by (cases rest') (auto split: if_splits option.splits list.splits)
    with c cs Cons d r cols'(2) show ?thesis by (simp add: csvEncode_Cons)
  qed
qed

lemma csvRecord_complete: "cols \<noteq> [] \<Longrightarrow> csvRecord (csvEncode cols) = Some cols"
proof (induction cols)
  case Nil
  then show ?case by simp
next
  case (Cons c cols)
  show ?case
  proof (cases "cols = []")
    case True
    then show ?thesis
      using csvField_complete [of "[]" c] by (simp add: csvEncode_Cons)
  next
    case False
    have "csvField (csvEscape c @ dquote # CHR '','' # csvEncode cols)
        = Some (c, CHR '','' # csvEncode cols)"
      by (rule csvField_complete) (simp add: dquote_def)
    with False Cons show ?thesis by (simp add: csvEncode_Cons)
  qed
qed

lemma csvEncode_plain:
  "\<forall>c \<in> set cols. dquote \<notin> set c \<Longrightarrow> csvEncode cols = joinWith '','' (map quote cols)"
  unfolding csvEncode_def
  by (rule arg_cong [where f = "joinWith '',''"]) (simp add: csvEscape_plain)

lemma length_joinWith:
  "length (joinWith sep xs) = sum_list (map length xs) + length sep * (length xs - 1)"
  by (induction sep xs rule: joinWith.induct) simp_all

lemma length_quote [simp]: "length (quote c) = length c + 2"
  by (simp add: quote_def)

lemma sum_list_length_quote_le:
  "sum_list (map length (map quote cols)) \<le> sum_list (map length (map (\<lambda>c. quote (csvEscape c)) cols))"
  by (induction cols) (simp_all add: comp_def add_mono length_csvEscape)

lemma sum_list_length_quote_less:
  "\<exists>c \<in> set cols. dquote \<in> set c \<Longrightarrow>
   sum_list (map length (map quote cols)) < sum_list (map length (map (\<lambda>c. quote (csvEscape c)) cols))"
proof (induction cols)
  case Nil
  then show ?case by simp
next
  case (Cons c cols)
  show ?case
  proof (cases "dquote \<in> set c")
    case True
    with length_csvEscape_quote [of c] sum_list_length_quote_le [of cols]
    show ?thesis by (simp add: comp_def)
  next
    case False
    with Cons have "sum_list (map length (map quote cols))
        < sum_list (map length (map (\<lambda>c. quote (csvEscape c)) cols))" by auto
    with length_csvEscape [of c] show ?thesis by (simp add: comp_def)
  qed
qed

text \<open>Read back by \<open>csvRecord\<close>, the unescaped row returns its fields exactly when no field
  contains a double quote.\<close>

lemma csvRecord_unescaped:
  assumes "cols \<noteq> []"
  shows "csvRecord (joinWith '','' (map quote cols)) = Some cols
         \<longleftrightarrow> (\<forall>c \<in> set cols. dquote \<notin> set c)"
proof
  assume "csvRecord (joinWith '','' (map quote cols)) = Some cols"
  then have e: "joinWith '','' (map quote cols) = csvEncode cols"
    by (rule csvRecord_sound)
  show "\<forall>c \<in> set cols. dquote \<notin> set c"
  proof (rule ccontr)
    assume "\<not> (\<forall>c \<in> set cols. dquote \<notin> set c)"
    then have "\<exists>c \<in> set cols. dquote \<in> set c" by simp
    from sum_list_length_quote_less [OF this]
    have "length (joinWith '','' (map quote cols)) < length (csvEncode cols)"
      by (simp add: length_joinWith csvEncode_def)
    with e show False by simp
  qed
next
  assume "\<forall>c \<in> set cols. dquote \<notin> set c"
  then have "joinWith '','' (map quote cols) = csvEncode cols"
    by (simp add: csvEncode_plain)
  with assms show "csvRecord (joinWith '','' (map quote cols)) = Some cols"
    by (simp add: csvRecord_complete)
qed

lemma set_showNat: "set (showNat n) \<subseteq> set ''0123456789''"
proof (induction n rule: showNat.induct)
  case (1 n)
  have d: "digitChar k \<in> set ''0123456789''" if "k < 10" for k
    unfolding digitChar_def by (rule nth_mem) (use that in simp)
  show ?case
  proof (cases "n < 10")
    case True
    with d [of n] show ?thesis by (simp add: showNat.simps [of n])
  next
    case False
    have "n mod 10 < 10" by simp
    with False d [of "n mod 10"] "1.IH" show ?thesis
      by (simp add: showNat.simps [of n])
  qed
qed

lemma dquote_showNat: "dquote \<notin> set (showNat n)"
  using set_showNat [of n] by (auto simp add: dquote_def)

lemma dquote_pad: "dquote \<notin> set (padStart w (CHR ''0'') (showNat n))"
  using dquote_showNat [of n] by (auto simp add: padStart_def dquote_def)

lemma dquote_formatYYYYMMDD: "dquote \<notin> set (formatYYYYMMDD ''-'' d)"
  using dquote_pad by (simp add: formatYYYYMMDD_def pad2_def dquote_def)

lemma dquote_formatHHmm: "dquote \<notin> set (formatHHmm tz x)"
proof (cases x)
  case (Date t)
  then show ?thesis using dquote_pad by (simp add: pad2_def dquote_def)
next
  case InvalidDate
  then show ?thesis by (simp add: dquote_def)
qed

lemma dquote_breakLengthText: "dquote \<notin> set (breakLengthText tz b)"
  unfolding breakLengthText_def by (rule dquote_formatHHmm)

lemma csvColumns_quotes:
  "(\<forall>c \<in> set (csvColumns tz gl recs dflt date). dquote \<notin> set c)
     \<longleftrightarrow> dquote \<notin> set (memo (gl (map_of recs (makeRecordKey date)) dflt))"
  by (simp add: csvColumns_def Let_def dquote_formatYYYYMMDD dquote_formatHHmm
        dquote_breakLengthText split: option.split)

lemma mailColumns_quotes:
  "(\<forall>c \<in> set (mailColumns tz gl recs date). dquote \<notin> set c)
     \<longleftrightarrow> dquote \<notin> set (memo (gl (map_of recs (makeRecordKey date)) None))"
  by (simp add: mailColumns_def Let_def dquote_formatYYYYMMDD dquote_formatHHmm split: option.split)

lemma csvRow_readback:
  "csvRecord (csvRow tz gl recs dflt date) = Some (csvColumns tz gl recs dflt date)
     \<longleftrightarrow> dquote \<notin> set (memo (gl (map_of recs (makeRecordKey date)) dflt))"
proof -
  have "csvColumns tz gl recs dflt date \<noteq> []" by (simp add: csvColumns_def Let_def)
  from csvRecord_unescaped [OF this] show ?thesis
    by (simp only: csvRow_def csvColumns_quotes)
qed

lemma mailRow_readback:
  "csvRecord (mailRow tz gl recs date) = Some (mailColumns tz gl recs date)
     \<longleftrightarrow> dquote \<notin> set (memo (gl (map_of recs (makeRecordKey date)) None))"
proof -
  have "mailColumns tz gl recs date \<noteq> []" by (simp add: mailColumns_def Let_def)
  from csvRecord_unescaped [OF this] show ?thesis
    by (simp only: mailRow_def mailColumns_quotes)
qed

lemma csvRow_verbatim:
  "csvRow tz gl recs dflt date =
     quote (csvColumns tz gl recs dflt date ! 0) @ '','' @ quote (csvColumns tz gl recs dflt date ! 1)
     @ '','' @ quote (csvColumns tz gl recs dflt date ! 2)
     @ '','' @ dquote # memo (gl (map_of recs (makeRecordKey date)) dflt) @ [dquote]
     @ '','' @ quote (csvColumns tz gl recs dflt date ! 4)"
  by (simp add: csvRow_def csvColumns_def Let_def quote_def)

lemma mailRow_verbatim:
  "mailRow tz gl recs date =
     quote (mailColumns tz gl recs date ! 0) @ '','' @ quote (mailColumns tz gl recs date ! 1)
     @ '','' @ quote (mailColumns tz gl recs date ! 2)
     @ '','' @ dquote # memo (gl (map_of recs (makeRecordKey date)) None) @ [dquote]"
  by (simp add: mailRow_def mailColumns_def Let_def quote_def)

text \<open>
  Claim C10 as stated: a memo containing a comma or a newline yields a row that is not a
  well-formed quoted-CSV record. It is one: on 3 February (memo \<open>a,b\<close>) and on
  7 February (memo with a line feed) of the sample records, both exporters' rows are
  read back as exactly their fields.
\<close>

theorem C10_counterexample:
  "CHR '','' \<in> set (memo (getLatestOf noOverride (map_of sampleRecords (makeRecordKey (feb2024 3))) (Some 75)))
   \<and> csvRecord (csvRow utc (getLatestOf noOverride) sampleRecords (Some 75) (feb2024 3))
       = Some (csvColumns utc (getLatestOf noOverride) sampleRecords (Some 75) (feb2024 3))
   \<and> csvRecord (mailRow utc (getLatestOf noOverride) sampleRecords (feb2024 3))
       = Some (mailColumns utc (getLatestOf noOverride) sampleRecords (feb2024 3))
   \<and> CHR 0x0A \<in> set (memo (getLatestOf noOverride (map_of sampleRecords (makeRecordKey (feb2024 7))) (Some 75)))
   \<and> csvRecord (csvRow utc (getLatestOf noOverride) sampleRecords (Some 75) (feb2024 7))
       = Some (csvColumns utc (getLatestOf noOverride) sampleRecords (Some 75) (feb2024 7))
   \<and> csvRecord (mailRow utc (getLatestOf noOverride) sampleRecords (feb2024 7))
       = Some (mailColumns utc (getLatestOf noOverride) sampleRecords (feb2024 7))"
proof -
  have m3: "memo (getLatestOf noOverride (map_of sampleRecords (makeRecordKey (feb2024 3))) d) = ''a,b''" for d
    by (simp add: day_defs)
  have m7: "memo (getLatestOf noOverride (map_of sampleRecords (makeRecordKey (feb2024 7))) d)
      = [CHR ''a'', CHR 0x0A, CHR ''b'']" for d
    by (simp add: day_defs)
  show ?thesis
    unfolding csvRow_readback mailRow_readback m3 m7
    by (simp add: dquote_def)
qed

text \<open>
  Claim C10, amended: both exporters wrap each raw value in one pair of double quotes
  with no escaping, so the memo stands verbatim between its two quotes in the row. With
  a memo that contains a double quote the row is not the well-formed quoted-CSV record
  of its fields; with any other memo, commas and newlines included, it is: the row is
  read back as its fields exactly when the memo contains no double quote.
\<close>

theorem C10_unescaped_fields:
  "csvRow tz gl recs dflt date =
     quote (csvColumns tz gl recs dflt date ! 0) @ '','' @ quote (csvColumns tz gl recs dflt date ! 1)
     @ '','' @ quote (csvColumns tz gl recs dflt date ! 2)
     @ '','' @ dquote # memo (gl (map_of recs (makeRecordKey date)) dflt) @ [dquote]
     @ '','' @ quote (csvColumns tz gl recs dflt date ! 4)
   \<and> mailRow tz gl recs date =
     quote (mailColumns tz gl recs date ! 0) @ '','' @ quote (mailColumns tz gl recs date ! 1)
     @ '','' @ quote (mailColumns tz gl recs date ! 2)
     @ '','' @ dquote # memo (gl (map_of recs (makeRecordKey date)) None) @ [dquote]
   \<and> (csvRecord (csvRow tz gl recs dflt date) = Some (csvColumns tz gl recs dflt date)
        \<longleftrightarrow> dquote \<notin> set (memo (gl (map_of recs (makeRecordKey date)) dflt)))
   \<and> (csvRecord (mailRow tz gl recs date) = Some (mailColumns tz gl recs date)
        \<longleftrightarrow> dquote \<notin> set (memo (gl (map_of recs (makeRecordKey date)) None)))"
  using csvRow_verbatim [of tz gl recs dflt date] mailRow_verbatim [of tz gl recs date]
    csvRow_readback [of tz gl recs dflt date] mailRow_readback [of tz gl recs date]
  by (intro conjI)

text \<open>
  Claim C10 on 5 February of the sample records, whose memo contains a double quote.
\<close>

theorem C10_witness:
  "dquote \<in> set (memo (getLatestOf noOverride (map_of sampleRecords (makeRecordKey (feb2024 5))) (Some 75)))
   \<and> csvRecord (csvRow utc (getLatestOf noOverride) sampleRecords (Some 75) (feb2024 5))
       \<noteq> Some (csvColumns utc (getLatestOf noOverride) sampleRecords (Some 75) (feb2024 5))
   \<and> csvRecord (mailRow utc (getLatestOf noOverride) sampleRecords (feb2024 5))
       \<noteq> Some (mailColumns utc (getLatestOf noOverride) sampleRecords (feb2024 5))"
proof -
  note t = C10_unescaped_fields [where tz = utc and gl = "getLatestOf noOverride"
      and recs = sampleRecords and dflt = "Some 75" and date = "feb2024 5"]
  have m: "dquote \<in> set (memo (getLatestOf noOverride (map_of sampleRecords (makeRecordKey (feb2024 5))) d))" for d
    by (simp add: day_defs)
  from t [THEN conjunct2, THEN conjunct2, THEN conjunct1] m [of "Some 75"]
  have a: "csvRecord (csvRow utc (getLatestOf noOverride) sampleRecords (Some 75) (feb2024 5))
       \<noteq> Some (csvColumns utc (getLatestOf noOverride) sampleRecords (Some 75) (feb2024 5))"
    by (simp only: simp_thms)
  from t [THEN conjunct2, THEN conjunct2, THEN conjunct2] m [of None]
  have b: "csvRecord (mailRow utc (getLatestOf noOverride) sampleRecords (feb2024 5))
       \<noteq> Some (mailColumns utc (getLatestOf noOverride) sampleRecords (feb2024 5))"
    by (simp only: simp_thms)
  from m [of "Some 75"] a b show ?thesis by (intro conjI)
qed

section \<open>The mailto URI\<close>

lemma indexOf_nth: "distinct xs \<Longrightarrow> i < length xs \<Longrightarrow> indexOf (xs ! i) xs = Some i"
proof (induction xs arbitrary: i)
  case Nil
  then show ?case by simp
next
  case (Cons y ys)
  show ?case
  proof (cases i)
    case 0
    then show ?thesis by simp
  next
    case (Suc j)
    with Cons.prems have "ys ! j \<noteq> y" "indexOf (ys ! j) ys = Some j"
      using Cons.IH [of j] by auto
    with Suc show ?thesis by simp
  qed
qed

lemma hexVal_hexChar: "d < 16 \<Longrightarrow> hexVal (hexChar d) = Some d"
  unfolding hexVal_def hexChar_def by (rule indexOf_nth) simp_all

lemma percentDecode_percentEncode:
  "percentDecode (percentEncode c @ s) = map_option ((#) c) (percentDecode s)"
proof (cases "uriUnreserved c")
  case True
  then have "c \<noteq> CHR ''%''" by (auto simp add: uriUnreserved_def)
  with True show ?thesis by (simp add: percentEncode_def)
next
  case False
  have "(of_char c :: nat) < 256" by simp
  then have "(of_char c :: nat) div 16 < 16" "(of_char c :: nat) mod 16 < 16" by arith+
  then have "hexVal (hexChar (of_char c div 16)) = Some (of_char c div 16)"
    "hexVal (hexChar (of_char c mod 16)) = Some (of_char c mod 16)"
    by (simp_all add: hexVal_hexChar)
  with False show ?thesis by (simp add: percentEncode_def)
qed

lemma percentDecode_encodeURIComponent: "percentDecode (encodeURIComponent s) = Some s"
  by (induction s) (simp_all add: encodeURIComponent_def percentDecode_percentEncode)

lemma uriUnreserved_hexChar: "d < 16 \<Longrightarrow> uriUnreserved (hexChar d)"
proof -
  assume "d < 16"
  then have "hexChar d \<in> set ''0123456789ABCDEF''"
    unfolding hexChar_def by (intro nth_mem) simp
  then show ?thesis by (auto simp add: uriUnreserved_def)
qed

lemma set_percentEncode: "set (percentEncode c) \<subseteq> {x. uriUnreserved x} \<union> {CHR ''%''}"
proof (cases "uriUnreserved c")
  case True
  then show ?thesis by (simp add: percentEncode_def)
next
  case False
  have "(of_char c :: nat) < 256" by simp
  then have "(of_char c :: nat) div 16 < 16" "(of_char c :: nat) mod 16 < 16" by arith+
  with False show ?thesis by (simp add: percentEncode_def uriUnreserved_hexChar)
qed

lemma set_encodeURIComponent: "set (encodeURIComponent s) \<subseteq> {x. uriUnreserved x} \<union> {CHR ''%''}"
  using set_percentEncode by (auto simp add: encodeURIComponent_def)

text \<open>
  Claim C7: \<open>createMailToUri\<close> returns \<open>mailto:\<close>, the encoded address, \<open>?subject=\<close> with
  the encoded date range (the first day and the last day of the month in the format
  \<open>ll\<close>, joined by \<open>" - "\<close>), and \<open>&body=\<close> with the encoded body: the four-column quoted
  rows, one per day of the month, joined with CRLF. An encoded value consists of
  unreserved characters and \<open>%\<close> escapes only, and decodes to the value.
\<close>

theorem C7_mailto_uri:
  "createMailToUri tz gl ll first recs mailAddress =
     ''mailto:'' @ encodeURIComponent mailAddress
     @ ''?subject='' @ encodeURIComponent (ll first @ '' - '' @ ll (first\<lparr>dDate := daysInMonth first\<rparr>))
     @ ''&body='' @ encodeURIComponent (joinWith [CHR 0x0D, CHR 0x0A] (bodyLines tz gl first recs))
   \<and> bodyLines tz gl first recs
     = map (\<lambda>i. joinWith '','' (map quote (mailColumns tz gl recs (first\<lparr>dDate := i + 1\<rparr>))))
         [0..<daysInMonth first]
   \<and> length (mailColumns tz gl recs date) = 4
   \<and> set (encodeURIComponent v) \<subseteq> {x. uriUnreserved x} \<union> {CHR ''%''}
   \<and> percentDecode (encodeURIComponent v) = Some v"
proof -
  have uri: "createMailToUri tz gl ll first recs mailAddress =
     ''mailto:'' @ encodeURIComponent mailAddress
     @ ''?subject='' @ encodeURIComponent (ll first @ '' - '' @ ll (first\<lparr>dDate := daysInMonth first\<rparr>))
     @ ''&body='' @ encodeURIComponent (joinWith [CHR 0x0D, CHR 0x0A] (bodyLines tz gl first recs))"
    by (simp add: createMailToUri_def endOfMonth_def)
  have body: "bodyLines tz gl first recs
     = map (\<lambda>i. joinWith '','' (map quote (mailColumns tz gl recs (first\<lparr>dDate := i + 1\<rparr>))))
         [0..<daysInMonth first]"
    by (simp add: bodyLines_def getDaysInMonth_def mailRow_def comp_def)
  have four: "length (mailColumns tz gl recs date) = 4"
    by (simp add: mailColumns_def Let_def)
  from uri body four set_encodeURIComponent [of v] percentDecode_encodeURIComponent [of v]
  show ?thesis by (intro conjI)
qed

text \<open>
  Claim C7 at February 2024 with the sample records: the head of the URI, and the
  encoded row of 3 February with its line end.
\<close>

theorem C7_witness:
  "createMailToUri utc (getLatestOf noOverride) llEnglish (feb2024 1) sampleRecords ''me@example.org'' =
     ''mailto:me%40example.org?subject=Feb%201%2C%202024%20-%20Feb%2029%2C%202024&body=''
     @ encodeURIComponent (joinWith [CHR 0x0D, CHR 0x0A] (bodyLines utc (getLatestOf noOverride) (feb2024 1) sampleRecords))
   \<and> encodeURIComponent (mailRow utc (getLatestOf noOverride) sampleRecords (feb2024 3) @ [CHR 0x0D, CHR 0x0A])
     = ''%222024-02-03%22%2C%2209%3A00%22%2C%2218%3A00%22%2C%22a%2Cb%22%0D%0A''"
proof -
  note t = C7_mailto_uri [where tz = utc and gl = "getLatestOf noOverride" and ll = llEnglish
      and first = "feb2024 1" and recs = sampleRecords and mailAddress = "''me@example.org''"]
  have a: "encodeURIComponent ''me@example.org'' = ''me%40example.org''"
    by (simp add: encodeURIComponent_def percentEncode_def uriUnreserved_def hexChar_def)
  have d: "daysInMonth (feb2024 1) = 29"
    by (simp add: daysInMonth_def isLeapYear_def)
  have s: "encodeURIComponent (llEnglish (feb2024 1) @ '' - '' @ llEnglish (feb2024 29))
      = ''Feb%201%2C%202024%20-%20Feb%2029%2C%202024''"
    by (simp add: llEnglish_def padStart_def showNat.simps digitChar_def
        encodeURIComponent_def percentEncode_def uriUnreserved_def hexChar_def)
  have r: "encodeURIComponent (mailRow utc (getLatestOf noOverride) sampleRecords (feb2024 3) @ [CHR 0x0D, CHR 0x0A])
     = ''%222024-02-03%22%2C%2209%3A00%22%2C%2218%3A00%22%2C%22a%2Cb%22%0D%0A''"
    by (simp add: day_defs dquote_def encodeURIComponent_def percentEncode_def uriUnreserved_def hexChar_def)
  from t [THEN conjunct1] a d s r show ?thesis
    by simp
qed

section \<open>Calendar lemmas\<close>














section \<open>Reading numbers and ISO strings back\<close>

















section \<open>Properties of the persistence transform\<close>

lemma index_key: "showNat i \<noteq> ''starts'' \<and> showNat i \<noteq> ''stops''"
proof -
  have "CHR ''s'' \<notin> set (showNat i)"
    using set_showNat [of i] by auto
  then show ?thesis by auto
qed

lemma reviver_element: "reviver other (showNat i) v = Inr v"
  using index_key [of i] by (simp add: reviver_def)

lemma internalize_atom: "isAtom x \<Longrightarrow> internalize (reviver other) (showNat i) x = Inr (atomValue x)"
  by (cases x) (simp_all add: reviver_element)

lemma internalizeElements_atoms:
  "list_all isAtom xs \<Longrightarrow> internalizeElements (reviver other) i xs = Inr (map atomValue xs)"
  by (induction xs arbitrary: i) (simp_all add: internalize_atom)

lemma internalize_dates:
  assumes "list_all isAtom xs" "key = ''starts'' \<or> key = ''stops''"
  shows "internalize (reviver other) key (JArray xs)
     = Inr (VArray (map (\<lambda>x. VDate (dayjs_toDate other (atomValue x))) xs))"
  using assms by (auto simp add: internalizeElements_atoms reviver_def comp_def)

lemma internalize_memos:
  "internalize (reviver other) ''memos'' (JArray (map JString ms)) = Inr (VArray (map VString ms))"
proof -
  have "list_all isAtom (map JString ms)" by (simp add: list_all_iff)
  then have "internalizeElements (reviver other) 0 (map JString ms) = Inr (map atomValue (map JString ms))"
    by (rule internalizeElements_atoms)
  then show ?thesis by (simp add: reviver_def comp_def)
qed

lemma internalize_dailyRecord:
  assumes "key \<noteq> ''starts''" "key \<noteq> ''stops''" "list_all isAtom ss" "list_all isAtom ts"
  shows "internalize (reviver other) key (dailyRecordText (ss, ts, ms))
     = Inr (hydratedRecord other (ss, ts, ms))"
proof -
  have "internalizeProperties (reviver other)
      [(''starts'', JArray ss), (''stops'', JArray ts), (''memos'', JArray (map JString ms))]
    = Inr [(''starts'', VArray (map (\<lambda>x. VDate (dayjs_toDate other (atomValue x))) ss)),
           (''stops'', VArray (map (\<lambda>x. VDate (dayjs_toDate other (atomValue x))) ts)),
           (''memos'', VArray (map VString ms))]"
    using internalize_dates [OF assms(3), of "''starts''" other]
      internalize_dates [OF assms(4), of "''stops''" other]
      internalize_memos [of other ms]
    by (simp del: internalize.simps)
  with assms(1,2) show ?thesis
    by (simp add: dailyRecordText_def hydratedRecord_def reviver_def)
qed

lemma internalize_records:
  assumes "noFieldKeys bs" "atomic bs"
  shows "internalizeProperties (reviver other) (map (map_prod id dailyRecordText) bs)
     = Inr (map (map_prod id (hydratedRecord other)) bs)"
  using assms
proof (induction bs)
  case Nil
  then show ?case by simp
next
  case (Cons b bs)
  obtain k ss ts ms where b: "b = (k, ss, ts, ms)" by (cases b) auto
  from Cons.prems b have k: "k \<noteq> ''starts''" "k \<noteq> ''stops''"
    and a: "list_all isAtom ss" "list_all isAtom ts"
    and rest: "noFieldKeys bs" "atomic bs"
    by (simp_all add: noFieldKeys_def atomic_def)
  from internalize_dailyRecord [OF k a, of other ms] Cons.IH [OF rest] b
  show ?case by (simp del: internalize.simps)
qed

lemma deserialize_recordsText:
  assumes "noFieldKeys bs" "atomic bs"
  shows "deserialize other (Text (recordsText bs)) = Some (Inr (State (hydrated other bs)))"
  using internalize_records [OF assms, of other]
  by (simp add: deserialize_def transformOut_def JSON_parse_def recordsText_def hydrated_def
      reviver_def)




















text \<open>
  Claim C3 as stated: the source has no \<open>PersistenceCorruptError\<close> and no check of the
  dates it re-hydrates; \<open>dayjs(v).toDate()\<close> of a string that is no date is an Invalid
  Date, and the call succeeds with it. Here the start of 3 February 2024 is the string
  \<open>not a date\<close>.
\<close>

theorem C3_counterexample:
  "deserialize notADate
     (Text (JObject [(''records'', JObject [(''20240203'',
        JObject [(''starts'', JArray [JString ''not a date'']),
                 (''stops'', JArray []),
                 (''memos'', JArray [])])])]))
     = Some (Inr (State (VObject [(''records'', VObject [(''20240203'',
        VObject [(''starts'', VArray [VDate InvalidDate]),
                 (''stops'', VArray []),
                 (''memos'', VArray [])])])])))
   \<and> parseISO ''not a date'' = None"
proof -
  have p: "parseISO ''not a date'' = None"
    by (simp add: parseISO_def readYear_def takeNum_def digitVal_def)
  then show ?thesis
    by (simp add: deserialize_def transformOut_def JSON_parse_def reviver_def dayjs_toDate_def
        index_key)
qed

text \<open>
  Claim C3, amended: for every blob of records none of whose keys is \<open>starts\<close> or \<open>stops\<close>,
  the elements of the two arrays being strings (or null, numbers or booleans), the
  deserialize call succeeds; where an element of a \<open>starts\<close> or \<open>stops\<close> array does not
  parse as a date, the result holds an Invalid Date in its place. A text that is not
  JSON fails the call with the SyntaxError of \<open>JSON.parse\<close>.
\<close>

theorem C3_invalid_date_kept:
  "(noFieldKeys bs \<and> atomic bs \<and> (k, ss, ts, ms) \<in> set bs \<and> x \<in> set (ss @ ts)
      \<and> dayjs_toDate other (atomValue x) = InvalidDate \<longrightarrow>
      deserialize other (Text (recordsText bs)) = Some (Inr (State (hydrated other bs)))
      \<and> InvalidDate \<in> set (datesOf (hydrated other bs)))
   \<and> deserialize other Malformed = Some (Inl SyntaxError)"
proof (intro conjI impI)
  assume a: "noFieldKeys bs \<and> atomic bs \<and> (k, ss, ts, ms) \<in> set bs \<and> x \<in> set (ss @ ts)
      \<and> dayjs_toDate other (atomValue x) = InvalidDate"
  then show "deserialize other (Text (recordsText bs)) = Some (Inr (State (hydrated other bs)))"
    by (intro deserialize_recordsText) simp_all
  from a have "InvalidDate \<in> set (datesOf (hydratedRecord other (ss, ts, ms)))"
    by (force simp add: hydratedRecord_def comp_def image_iff)
  with a show "InvalidDate \<in> set (datesOf (hydrated other bs))"
    by (force simp add: hydrated_def)
next
  show "deserialize other Malformed = Some (Inl SyntaxError)"
    by (simp add: deserialize_def transformOut_def)
qed

text \<open>
  Claim C3 on the blob whose start of 3 February 2024 is the string \<open>not a date\<close>.
\<close>

theorem C3_witness:
  "noFieldKeys [(''20240203'', [JString ''not a date''], [], [])]
   \<and> atomic [(''20240203'', [JString ''not a date''], [], [])]
   \<and> dayjs_toDate notADate (atomValue (JString ''not a date'')) = InvalidDate
   \<and> recordsText [(''20240203'', [JString ''not a date''], [], [])]
     = JObject [(''records'', JObject [(''20240203'',
        JObject [(''starts'', JArray [JString ''not a date'']),
                 (''stops'', JArray []),
                 (''memos'', JArray [])])])]
   \<and> deserialize notADate (Text (recordsText [(''20240203'', [JString ''not a date''], [], [])]))
     = Some (Inr (State (VObject [(''records'', VObject [(''20240203'',
        VObject [(''starts'', VArray [VDate InvalidDate]),
                 (''stops'', VArray []),
                 (''memos'', VArray [])])])])))
   \<and> InvalidDate \<in> set (datesOf (hydrated notADate [(''20240203'', [JString ''not a date''], [], [])]))"
proof -
  note t = C3_invalid_date_kept [where other = notADate
      and bs = "[(''20240203'', [JString ''not a date''], [], [])]"
      and k = "''20240203''" and ss = "[JString ''not a date'']" and ts = "[]" and ms = "[]"
      and x = "JString ''not a date''"]
  have n: "noFieldKeys [(''20240203'', [JString ''not a date''], [], [])]"
    by (simp add: noFieldKeys_def)
  have a: "atomic [(''20240203'', [JString ''not a date''], [], [])]"
    by (simp add: atomic_def)
  have p: "parseISO ''not a date'' = None"
    by (simp add: parseISO_def readYear_def takeNum_def digitVal_def)
  then have i: "dayjs_toDate notADate (atomValue (JString ''not a date'')) = InvalidDate"
    by (simp add: dayjs_toDate_def)
  have m: "(''20240203'', [JString ''not a date''], [], [])
      \<in> set [(''20240203'', [JString ''not a date''], [], [])]"
    "JString ''not a date'' \<in> set ([JString ''not a date''] @ [])"
    by simp_all
  from t [THEN conjunct1, THEN mp, OF conjI, OF n conjI, OF a conjI, OF m(1) conjI, OF m(2) i]
  have r: "deserialize notADate (Text (recordsText [(''20240203'', [JString ''not a date''], [], [])]))
      = Some (Inr (State (hydrated notADate [(''20240203'', [JString ''not a date''], [], [])])))"
    and e: "InvalidDate \<in> set (datesOf (hydrated notADate [(''20240203'', [JString ''not a date''], [], [])]))"
    by simp_all
  from r i have d: "deserialize notADate (Text (recordsText [(''20240203'', [JString ''not a date''], [], [])]))
     = Some (Inr (State (VObject [(''records'', VObject [(''20240203'',
        VObject [(''starts'', VArray [VDate InvalidDate]),
                 (''stops'', VArray []),
                 (''memos'', VArray [])])])])))"
    by (simp add: hydrated_def hydratedRecord_def)
  have b: "recordsText [(''20240203'', [JString ''not a date''], [], [])]
     = JObject [(''records'', JObject [(''20240203'',
        JObject [(''starts'', JArray [JString ''not a date'']),
                 (''stops'', JArray []),
                 (''memos'', JArray [])])])]"
    by (simp add: recordsText_def dailyRecordText_def)
  from n a i b d e show ?thesis by (intro conjI)
qed

end
